theory Spec2Isabelle
  imports Complex_Main "HOL-Library.Char_ord" "HOL-Library.List_Lexorder"
    "HOL-Library.Product_Lexorder" "HOL-Library.Code_Target_Nat"
begin

section \<open>ProductRecommenderAI: a shallow embedding of ProductRecommender_AI.py\<close>

text \<open>
  The program reads a batch of sales transactions (CSV text or a JSON envelope) into a
  pandas DataFrame, validates it, aggregates it per product and renders a text report.

  Conventions of the embedding.
  \<^item> A Python \<open>str\<close> is a \<open>string\<close> holding its UTF-8 bytes.
  \<^item> The values of \<open>int64\<close> and \<open>float64\<close> (infinities and \<open>NaN\<close> among them) are the
    elements of a type parameter \<open>'n\<close>. The embedding computes nothing on them itself:
    every comparison, sum, product, rounding, sort, conversion and formatting of numbers
    is a call of the library.
  \<^item> What Python, json, numpy and pandas do is not code of this repository. Each such
    call is a field of the record \<open>lib\<close>, a parameter of every function that makes the
    call; a theorem about all libraries holds of the real one.
  \<^item> An exception is a value \<open>Inl e\<close> of the result type \<open>exn + 'a\<close>. The value
    \<open>Unmodelled\<close> is no exception of Python: it marks the places where the embedding does
    not say what the code does (a column selected by a label that occurs twice, a string
    where the code computes with a number it has not coerced).
\<close>

subsection \<open>Strings\<close>

definition nl :: string where
  "nl = [CHR 0x0A]"

definition quote :: string where
  "quote = [CHR 0x27]"

text \<open>The non-ASCII characters of the report, as UTF-8 bytes.\<close>

definition check_mark :: string where
  "check_mark = [CHR 0xE2, CHR 0x9C, CHR 0x93]"

definition cross_mark :: string where
  "cross_mark = [CHR 0xE2, CHR 0x9C, CHR 0x97]"

definition times_sign :: string where
  "times_sign = [CHR 0xC3, CHR 0x97]"

definition sum_sign :: string where
  "sum_sign = [CHR 0xE2, CHR 0x88, CHR 0x91]"

text \<open>\<open>sep.join(xs)\<close>.\<close>

fun join :: "string \<Rightarrow> string list \<Rightarrow> string" where
  "join sep [] = []"
| "join sep [x] = x"
| "join sep (x # y # ys) = x @ sep @ join sep (y # ys)"

text \<open>\<open>s.startswith(p)\<close> and \<open>p in s\<close> (substring test).\<close>

fun starts_with :: "string \<Rightarrow> string \<Rightarrow> bool" where
  "starts_with s [] = True"
| "starts_with [] (p # ps) = False"
| "starts_with (c # cs) (p # ps) = (c = p \<and> starts_with cs ps)"

fun contains :: "string \<Rightarrow> string \<Rightarrow> bool" where
  "contains [] p = (p = [])"
| "contains (c # cs) p = (starts_with (c # cs) p \<or> contains cs p)"

text \<open>\<open>str(n)\<close> of a Python integer.\<close>

definition digit_char :: "nat \<Rightarrow> char" where
  "digit_char d = char_of (48 + d)"

fun str_nat :: "nat \<Rightarrow> string" where
  "str_nat n = (if n < 10 then [digit_char n] else str_nat (n div 10) @ [digit_char (n mod 10)])"

declare str_nat.simps [simp del]

definition str_int :: "int \<Rightarrow> string" where
  "str_int i = (if i < 0 then ''-'' @ str_nat (nat (- i)) else str_nat (nat i))"

subsection \<open>Exceptions, cells, frames\<close>

datatype exn =
    KeyError string
  | TypeError string
  | ValueError string
  | OverflowError string
  | JSONDecodeError string
  | AttributeError string
  | OtherError string
  | Unmodelled string

text \<open>\<open>str(e)\<close>: a \<open>KeyError\<close> prints the repr of its key.\<close>

fun str_exn :: "exn \<Rightarrow> string" where
  "str_exn (KeyError k) = quote @ k @ quote"
| "str_exn (TypeError m) = m"
| "str_exn (ValueError m) = m"
| "str_exn (OverflowError m) = m"
| "str_exn (JSONDecodeError m) = m"
| "str_exn (AttributeError m) = m"
| "str_exn (OtherError m) = m"
| "str_exn (Unmodelled m) = m"

text \<open>A value held in a frame: a string, a number, or a missing value (\<open>None\<close>). A
  \<open>NaN\<close> is a number.\<close>

datatype 'n cell = Str string | Num 'n | Null

text \<open>The label of a row: its position, for the default index, or a value, when
  \<open>read_csv\<close> takes the first field of every row as the index (it does so when the rows
  have one field more than the header).\<close>

datatype 'n label = Position nat | Value "'n cell"

text \<open>A DataFrame: its column labels and its rows, each with its label and its cells by
  position.\<close>

record 'n dataframe =
  columns :: "string list"
  rows :: "('n label \<times> 'n cell list) list"

text \<open>A value parsed from JSON; the keys of an object are distinct.\<close>

datatype 'n json =
    JObject "(string \<times> 'n json) list"
  | JArray "'n json list"
  | JString string
  | JNumber 'n
  | JBool bool
  | JNull

text \<open>The library. The comment of a field gives the call it stands for.\<close>

record 'n lib =
  py_strip :: "string \<Rightarrow> string"
    \<comment> \<open>\<open>s.strip()\<close>\<close>
  py_lower :: "string \<Rightarrow> string"
    \<comment> \<open>\<open>s.lower()\<close>\<close>
  read_csv :: "string \<Rightarrow> exn + 'n dataframe"
    \<comment> \<open>\<open>pd.read_csv(io.StringIO(data), skipinitialspace=True)\<close>\<close>
  json_loads :: "string \<Rightarrow> exn + 'n json"
    \<comment> \<open>\<open>json.loads(data)\<close>\<close>
  DataFrame :: "'n json \<Rightarrow> exn + 'n dataframe"
    \<comment> \<open>\<open>pd.DataFrame(v)\<close>\<close>
  label_error :: "'n json \<Rightarrow> string option"
    \<comment> \<open>when a column label of \<open>pd.DataFrame(v)\<close> is no string: the text of the
      \<open>AttributeError\<close> that \<open>col.lower()\<close> raises on the first such label\<close>
  not_iterable :: "'n json \<Rightarrow> string"
    \<comment> \<open>the text of the \<open>TypeError\<close> of \<open>'transactions' in v\<close> for a \<open>v\<close> that is no container\<close>
  not_subscriptable :: "'n json \<Rightarrow> string"
    \<comment> \<open>the text of the \<open>TypeError\<close> of \<open>v['transactions']\<close> for a list or a string \<open>v\<close>\<close>
  to_numeric_str :: "string \<Rightarrow> 'n option"
    \<comment> \<open>what \<open>pd.to_numeric(errors='coerce')\<close> makes of a string; \<open>None\<close> when it coerces to \<open>NaN\<close>\<close>
  nan :: 'n
    \<comment> \<open>\<open>NaN\<close>\<close>
  is_nan :: "'n \<Rightarrow> bool"
    \<comment> \<open>\<open>isna\<close> of a number\<close>
  le_zero :: "'n \<Rightarrow> bool"
    \<comment> \<open>\<open>x <= 0\<close>\<close>
  num_eq :: "'n \<Rightarrow> 'n \<Rightarrow> bool"
    \<comment> \<open>\<open>x == y\<close>\<close>
  num_le :: "'n \<Rightarrow> 'n \<Rightarrow> bool"
    \<comment> \<open>the order in which sorting arranges numbers: \<open>x <= y\<close>, a \<open>NaN\<close> below every number\<close>
  numeric_dtype :: "'n cell list \<Rightarrow> bool"
    \<comment> \<open>whether a column of these values has a numeric dtype\<close>
  to_datetime_ok :: "'n cell list list \<Rightarrow> bool"
    \<comment> \<open>whether \<open>pd.to_datetime\<close> returns on the selection made of these columns\<close>
  group_sum :: "'n list \<Rightarrow> 'n"
    \<comment> \<open>the \<open>'sum'\<close> of \<open>groupby(...).agg\<close> over the values of one group\<close>
  loc_mul_sum :: "('n label \<times> 'n) list \<Rightarrow> ('n label \<times> 'n) list \<Rightarrow> 'n"
    \<comment> \<open>\<open>(df.loc[x.index, 'quantity'] * x).sum()\<close>, from the labelled values of \<open>df['quantity']\<close> and of \<open>x\<close>\<close>
  half :: "'n \<Rightarrow> 'n"
    \<comment> \<open>\<open>x * 0.5\<close>\<close>
  add :: "'n \<Rightarrow> 'n \<Rightarrow> 'n"
    \<comment> \<open>\<open>x + y\<close>\<close>
  num_mul :: "'n \<Rightarrow> 'n \<Rightarrow> 'n"
    \<comment> \<open>\<open>x * y\<close> for two values of a row\<close>
  argsort_desc :: "'n list \<Rightarrow> nat list"
    \<comment> \<open>the positions in the order \<open>sort_values(ascending=False)\<close> puts them, default \<open>kind\<close>\<close>
  round2 :: "'n \<Rightarrow> 'n"
    \<comment> \<open>what \<open>DataFrame.round(2)\<close> makes of a value of a numeric column\<close>
  to_int :: "'n \<Rightarrow> exn + int"
    \<comment> \<open>\<open>int(x)\<close>\<close>
  fmt_2f :: "'n \<Rightarrow> string"
    \<comment> \<open>\<open>f"{x:.2f}"\<close>\<close>
  fmt_comma_2f :: "'n \<Rightarrow> string"
    \<comment> \<open>\<open>f"{x:,.2f}"\<close>\<close>
  str_num :: "'n \<Rightarrow> string"
    \<comment> \<open>\<open>str(x)\<close>\<close>

text \<open>\<open>len(df)\<close>.\<close>

definition len :: "'n dataframe \<Rightarrow> nat" where
  "len df = length (rows df)"

text \<open>The position of the first column that bears a label, and the cell of a row at a
  position (a row holds a missing value where it has no cell).\<close>

fun find_label :: "string \<Rightarrow> string list \<Rightarrow> nat option" where
  "find_label name [] = None"
| "find_label name (c # cs) =
     (if c = name then Some 0 else map_option Suc (find_label name cs))"

definition cell_at :: "'n cell list \<Rightarrow> nat \<Rightarrow> 'n cell" where
  "cell_at r j = (if j < length r then r ! j else Null)"

text \<open>A label that occurs more than once among the columns: \<open>df[name]\<close> is then a frame,
  not a column.\<close>

definition repeated :: "string \<Rightarrow> string list \<Rightarrow> bool" where
  "repeated name cs = (1 < length (filter (\<lambda>c. c = name) cs))"

text \<open>\<open>df[name]\<close> used as a column: \<open>KeyError\<close> for a missing label; what the code does
  with the frame selected by a repeated label is not modelled.\<close>

definition getitem :: "'n dataframe \<Rightarrow> string \<Rightarrow> exn + 'n cell list" where
  "getitem df name =
     (if repeated name (columns df) then Inl (Unmodelled ''selection by a repeated label'')
      else
        (case find_label name (columns df) of
           None \<Rightarrow> Inl (KeyError name)
         | Some j \<Rightarrow> Inr (map (\<lambda>r. cell_at (snd r) j) (rows df))))"

text \<open>The cells of a row with the cell at one position replaced.\<close>

definition put_cell :: "'n cell list \<Rightarrow> nat \<Rightarrow> 'n cell \<Rightarrow> 'n cell list" where
  "put_cell r j v = (r @ replicate (Suc j - length r) Null)[j := v]"

text \<open>\<open>df[name] = col\<close> for a label that occurs once (the only use in the program).\<close>

definition setitem :: "'n dataframe \<Rightarrow> string \<Rightarrow> 'n cell list \<Rightarrow> 'n dataframe" where
  "setitem df name col =
     (case find_label name (columns df) of
        None \<Rightarrow> df
      | Some j \<Rightarrow> df\<lparr>rows := map (\<lambda>(r, v). (fst r, put_cell (snd r) j v)) (zip (rows df) col)\<rparr>)"

text \<open>\<open>str(v)\<close> of a cell inside an f-string.\<close>

definition str_cell :: "'n lib \<Rightarrow> 'n cell \<Rightarrow> string" where
  "str_cell L c = (case c of Str s \<Rightarrow> s | Num r \<Rightarrow> str_num L r | Null \<Rightarrow> ''None'')"

text \<open>Running a list of fallible steps: the first exception wins.\<close>

fun sequence_r :: "(exn + 'a) list \<Rightarrow> exn + 'a list" where
  "sequence_r [] = Inr []"
| "sequence_r (x # xs) =
     (case x of
        Inl e \<Rightarrow> Inl e
      | Inr v \<Rightarrow> (case sequence_r xs of Inl e \<Rightarrow> Inl e | Inr vs \<Rightarrow> Inr (v # vs)))"

subsection \<open>The class and its configuration\<close>

record recommender =
  required_fields :: "string list"

text \<open>\<open>ProductRecommenderAI()\<close>: the instance built by \<open>__init__\<close>.\<close>

definition ProductRecommenderAI :: recommender where
  "ProductRecommenderAI =
     \<lparr>required_fields =
        [''transaction_id'', ''customer_id'', ''transaction_date'',
         ''product_id'', ''product_name'', ''quantity'', ''price_usd'']\<rparr>"

subsection \<open>Column tests shared by the report and the type validation\<close>

definition is_Str :: "'n cell \<Rightarrow> bool" where
  "is_Str c = (case c of Str s \<Rightarrow> True | _ \<Rightarrow> False)"

text \<open>\<open>isna\<close> of a cell: a missing value or a \<open>NaN\<close>.\<close>

definition cell_isna :: "'n lib \<Rightarrow> 'n cell \<Rightarrow> bool" where
  "cell_isna L c = (case c of Null \<Rightarrow> True | Num r \<Rightarrow> is_nan L r | Str s \<Rightarrow> False)"

text \<open>\<open>col.isna()\<close>.\<close>

definition isna :: "'n lib \<Rightarrow> 'n cell list \<Rightarrow> bool list" where
  "isna L col = map (cell_isna L) col"

text \<open>\<open>col <= 0\<close>: a missing value compares false, a number is compared by the library,
  and a string in the column makes the comparison raise \<open>TypeError\<close>.\<close>

definition str_le_int :: string where
  "str_le_int =
     quote @ ''<='' @ quote @ '' not supported between instances of '' @
     quote @ ''str'' @ quote @ '' and '' @ quote @ ''int'' @ quote"

definition col_le_zero :: "'n lib \<Rightarrow> 'n cell list \<Rightarrow> exn + bool list" where
  "col_le_zero L col =
     (if \<exists>c \<in> set col. is_Str c then Inl (TypeError str_le_int)
      else Inr (map (\<lambda>c. case c of Num r \<Rightarrow> le_zero L r | _ \<Rightarrow> False) col))"

text \<open>\<open>len(df[df[name].isna() | (df[name] <= 0)])\<close>: the number of rows selected by the
  mask. The frame has a column whenever the mask could be built, so the selection is
  \<open>empty\<close> exactly when this number is 0.\<close>

definition invalid_rows :: "'n lib \<Rightarrow> 'n dataframe \<Rightarrow> string \<Rightarrow> exn + nat" where
  "invalid_rows L df name =
     (case getitem df name of
        Inl e \<Rightarrow> Inl e
      | Inr col \<Rightarrow>
          (case col_le_zero L col of
             Inl e \<Rightarrow> Inl e
           | Inr neg \<Rightarrow> Inr (length (filter (\<lambda>(a, b). a \<or> b) (zip (isna L col) neg)))))"

subsection \<open>format_validation_report\<close>

definition dashes :: string where
  "dashes = replicate 50 (CHR ''-'')"

definition check_status :: "nat \<Rightarrow> string" where
  "check_status n =
     (if n = 0 then check_mark @ '' Valid''
      else cross_mark @ '' Found '' @ str_nat n @ '' invalid records'')"

text \<open>All the columns that bear a label: none, one (\<open>df[name]\<close> is a Series) or several
  (\<open>df[name]\<close> is a frame).\<close>

definition columns_named :: "'n dataframe \<Rightarrow> string \<Rightarrow> 'n cell list list" where
  "columns_named df name =
     map (\<lambda>j. map (\<lambda>r. cell_at (snd r) j) (rows df))
       (filter (\<lambda>j. columns df ! j = name) [0..<length (columns df)])"

text \<open>The \<open>try\<close> around \<open>pd.to_datetime(df['transaction_date'])\<close> has a bare \<open>except\<close>: a
  missing column and a selection \<open>pd.to_datetime\<close> raises on both give the invalid
  status.\<close>

definition date_status :: "'n lib \<Rightarrow> 'n dataframe \<Rightarrow> string" where
  "date_status L df =
     (if columns_named df ''transaction_date'' \<noteq> [] \<and>
         to_datetime_ok L (columns_named df ''transaction_date'')
      then check_mark @ '' Valid''
      else cross_mark @ '' Invalid date format found'')"

definition format_validation_report ::
  "'n lib \<Rightarrow> recommender \<Rightarrow> 'n dataframe \<Rightarrow> exn + string list" where
  "format_validation_report L self df =
     (let df_columns = set (map (\<lambda>col. py_strip L (py_lower L col)) (columns df));
          head =
            [''Data Validation Report:'', dashes,
             ''1. Data Structure Check:'',
             ''   - Number of records: '' @ str_nat (len df),
             ''   - Number of columns: '' @ str_nat (length (columns df)),
             nl @ ''2. Required Fields Check:''] @
            map (\<lambda>field. ''   - '' @ field @ '': '' @
                   (if py_lower L field \<in> df_columns then check_mark @ '' Present''
                    else cross_mark @ '' Missing''))
                (required_fields self) @
            [nl @ ''3. Data Type Validation:'']
      in case invalid_rows L df ''quantity'' of
           Inl e \<Rightarrow> Inl e
         | Inr nq \<Rightarrow>
             (case invalid_rows L df ''price_usd'' of
                Inl e \<Rightarrow> Inl e
              | Inr np \<Rightarrow>
                  Inr (head @
                       [''   - Quantity (positive integers): '' @ check_status nq,
                        ''   - Price (positive numbers): '' @ check_status np,
                        ''   - Date format: '' @ date_status L df,
                        nl @ dashes])))"

subsection \<open>validate_data_format\<close>

text \<open>Python's \<open>'transactions' in json_data\<close> and \<open>json_data['transactions']\<close> on each
  kind of JSON value.\<close>

definition json_contains :: "'n lib \<Rightarrow> 'n json \<Rightarrow> string \<Rightarrow> exn + bool" where
  "json_contains L j k =
     (case j of
        JObject kvs \<Rightarrow> Inr (k \<in> set (map fst kvs))
      | JArray xs \<Rightarrow> Inr (JString k \<in> set xs)
      | JString s \<Rightarrow> Inr (contains s k)
      | _ \<Rightarrow> Inl (TypeError (not_iterable L j)))"

definition json_getitem :: "'n lib \<Rightarrow> 'n json \<Rightarrow> string \<Rightarrow> exn + 'n json" where
  "json_getitem L j k =
     (case j of
        JObject kvs \<Rightarrow>
          (case map_of kvs k of None \<Rightarrow> Inl (KeyError k) | Some v \<Rightarrow> Inr v)
      | _ \<Rightarrow> Inl (TypeError (not_subscriptable L j)))"

definition is_csv :: "string \<Rightarrow> bool" where
  "is_csv data =
     (contains data ''transaction_id,'' \<or> contains data (''transaction_id'' @ nl))"

definition json_structure_message :: string where
  "json_structure_message =
     ''ERROR: Invalid JSON structure. Must contain '' @ quote @ ''transactions'' @
     quote @ '' key.''"

definition data_format_message :: string where
  "data_format_message =
     ''ERROR: Invalid data format. Please provide your data in CSV or JSON format.''"

text \<open>The body of the inner \<open>try\<close>, before its \<open>except json.JSONDecodeError\<close>.\<close>

definition json_branch ::
  "'n lib \<Rightarrow> string \<Rightarrow> exn + (bool \<times> string \<times> 'n dataframe option)" where
  "json_branch L data =
     (case json_loads L data of
        Inl e \<Rightarrow> Inl e
      | Inr json_data \<Rightarrow>
          (case json_contains L json_data ''transactions'' of
             Inl e \<Rightarrow> Inl e
           | Inr False \<Rightarrow> Inr (False, json_structure_message, None)
           | Inr True \<Rightarrow>
               (case json_getitem L json_data ''transactions'' of
                  Inl e \<Rightarrow> Inl e
                | Inr v \<Rightarrow>
                    (case DataFrame L v of
                       Inl e \<Rightarrow> Inl e
                     | Inr df \<Rightarrow>
                         (case label_error L v of
                            Some m \<Rightarrow> Inl (AttributeError m)
                          | None \<Rightarrow>
                              Inr (True, ''Success'',
                                   Some (df\<lparr>columns := map (py_lower L) (columns df)\<rparr>)))))))"

definition validate_data_format ::
  "'n lib \<Rightarrow> string \<Rightarrow> bool \<times> string \<times> 'n dataframe option" where
  "validate_data_format L data0 =
     (let data = py_strip L data0
      in if is_csv data then
           (case read_csv L data of
              Inl e \<Rightarrow> (False, ''ERROR: Data processing failed. '' @ str_exn e, None)
            | Inr df \<Rightarrow>
                (True, ''Success'',
                 Some (df\<lparr>columns := map (\<lambda>col. py_lower L (py_strip L col)) (columns df)\<rparr>)))
         else
           (case json_branch L data of
              Inl (JSONDecodeError m) \<Rightarrow> (False, data_format_message, None)
            | Inl e \<Rightarrow> (False, ''ERROR: Data processing failed. '' @ str_exn e, None)
            | Inr r \<Rightarrow> r))"

subsection \<open>validate_required_fields\<close>

definition validate_required_fields ::
  "'n lib \<Rightarrow> recommender \<Rightarrow> 'n dataframe \<Rightarrow> bool \<times> string" where
  "validate_required_fields L self df =
     (let df_columns = set (map (\<lambda>col. py_strip L (py_lower L col)) (columns df));
          missing_fields =
            filter (\<lambda>field. py_lower L field \<notin> df_columns) (required_fields self)
      in if missing_fields \<noteq> []
         then (False, ''ERROR: Missing required fields: '' @ join '', '' missing_fields @ ''.'')
         else (True, ''Success''))"

subsection \<open>validate_data_types\<close>

text \<open>\<open>pd.to_numeric(col, errors='coerce')\<close> on a column: a number stays, a string is
  converted by the library or becomes \<open>NaN\<close>, a missing value becomes \<open>NaN\<close>.\<close>

definition to_numeric_cell :: "'n lib \<Rightarrow> 'n cell \<Rightarrow> 'n cell" where
  "to_numeric_cell L c =
     (case c of
        Str s \<Rightarrow> (case to_numeric_str L s of Some r \<Rightarrow> Num r | None \<Rightarrow> Num (nan L))
      | Num r \<Rightarrow> Num r
      | Null \<Rightarrow> Num (nan L))"

definition to_numeric :: "'n lib \<Rightarrow> 'n cell list \<Rightarrow> 'n cell list" where
  "to_numeric L col = map (to_numeric_cell L) col"

text \<open>\<open>pd.to_numeric(df[name], errors='coerce')\<close>: on the frame selected by a repeated
  label \<open>pd.to_numeric\<close> raises \<open>TypeError\<close>.\<close>

definition to_numeric_column :: "'n lib \<Rightarrow> 'n dataframe \<Rightarrow> string \<Rightarrow> exn + 'n cell list" where
  "to_numeric_column L df name =
     (if repeated name (columns df)
      then Inl (TypeError ''arg must be a list, tuple, 1-d array, or Series'')
      else (case getitem df name of Inl e \<Rightarrow> Inl e | Inr col \<Rightarrow> Inr (to_numeric L col)))"

definition quantity_message :: string where
  "quantity_message = ''ERROR: Invalid value for field(s): quantity. Must be positive integer.''"

definition price_message :: string where
  "price_message = ''ERROR: Invalid value for field(s): price_usd. Must be positive number.''"

definition type_failure :: "exn \<Rightarrow> bool \<times> string" where
  "type_failure e = (False, ''ERROR: Data type validation failed. '' @ str_exn e)"

text \<open>The frame is coerced in place, so the function returns it next to its result; an
  exception inside the \<open>try\<close> leaves the assignments made before it.\<close>

definition validate_data_types ::
  "'n lib \<Rightarrow> 'n dataframe \<Rightarrow> (bool \<times> string) \<times> 'n dataframe" where
  "validate_data_types L df =
     (case to_numeric_column L df ''quantity'' of
        Inl e \<Rightarrow> (type_failure e, df)
      | Inr q \<Rightarrow>
          (let df1 = setitem df ''quantity'' q
           in case to_numeric_column L df1 ''price_usd'' of
                Inl e \<Rightarrow> (type_failure e, df1)
              | Inr p \<Rightarrow>
                  (let df2 = setitem df1 ''price_usd'' p
                   in case invalid_rows L df2 ''quantity'' of
                        Inl e \<Rightarrow> (type_failure e, df2)
                      | Inr nq \<Rightarrow>
                          if nq \<noteq> 0 then ((False, quantity_message), df2)
                          else
                            (case invalid_rows L df2 ''price_usd'' of
                               Inl e \<Rightarrow> (type_failure e, df2)
                             | Inr np \<Rightarrow>
                                 if np \<noteq> 0 then ((False, price_message), df2)
                                 else ((True, ''Success''), df2)))))"

subsection \<open>calculate_metrics\<close>

text \<open>One row of the frame \<open>product_metrics\<close>.\<close>

record 'n product_metric =
  product_id :: "'n cell"
  product_name :: "'n cell"
  total_quantity :: 'n
  total_spend :: 'n
  importance_score :: 'n

text \<open>\<open>a == b\<close> on two values of a frame: a missing value and a \<open>NaN\<close> equal nothing.\<close>

definition cell_eq :: "'n lib \<Rightarrow> 'n cell \<Rightarrow> 'n cell \<Rightarrow> bool" where
  "cell_eq L a b =
     (case (a, b) of
        (Num x, Num y) \<Rightarrow> num_eq L x y
      | (Str s, Str t) \<Rightarrow> s = t
      | _ \<Rightarrow> False)"

text \<open>The order in which \<open>groupby\<close> (whose default is \<open>sort=True\<close>) emits its groups:
  ascending in \<open>product_id\<close>, then in \<open>product_name\<close>; inside a column numbers sort by
  value and before strings, strings by code point.\<close>

definition cell_le :: "'n lib \<Rightarrow> 'n cell \<Rightarrow> 'n cell \<Rightarrow> bool" where
  "cell_le L a b =
     (case (a, b) of
        (Num x, Num y) \<Rightarrow> num_le L x y
      | (Num x, _) \<Rightarrow> True
      | (Str s, Str t) \<Rightarrow> s \<le> t
      | (Str s, Num y) \<Rightarrow> False
      | (Str s, Null) \<Rightarrow> True
      | (Null, Null) \<Rightarrow> True
      | (Null, _) \<Rightarrow> False)"

definition key_eq :: "'n lib \<Rightarrow> 'n cell \<times> 'n cell \<Rightarrow> 'n cell \<times> 'n cell \<Rightarrow> bool" where
  "key_eq L a b = (cell_eq L (fst a) (fst b) \<and> cell_eq L (snd a) (snd b))"

definition key_le :: "'n lib \<Rightarrow> 'n cell \<times> 'n cell \<Rightarrow> 'n cell \<times> 'n cell \<Rightarrow> bool" where
  "key_le L a b =
     (if cell_eq L (fst a) (fst b) then cell_le L (snd a) (snd b)
      else cell_le L (fst a) (fst b))"

fun insert_by :: "('a \<Rightarrow> 'a \<Rightarrow> bool) \<Rightarrow> 'a \<Rightarrow> 'a list \<Rightarrow> 'a list" where
  "insert_by le x [] = [x]"
| "insert_by le x (y # ys) = (if le x y then x # y # ys else y # insert_by le x ys)"

definition sort_by :: "('a \<Rightarrow> 'a \<Rightarrow> bool) \<Rightarrow> 'a list \<Rightarrow> 'a list" where
  "sort_by le xs = foldr (insert_by le) xs []"

fun unique_by :: "('a \<Rightarrow> 'a \<Rightarrow> bool) \<Rightarrow> 'a list \<Rightarrow> 'a list" where
  "unique_by eq [] = []"
| "unique_by eq (x # xs) = x # unique_by eq (filter (\<lambda>y. \<not> eq x y) xs)"

text \<open>The group keys: the distinct \<open>(product_id, product_name)\<close> pairs of the rows, rows
  with a missing value in the key dropped (\<open>dropna\<close>), in sorted order.\<close>

definition group_keys :: "'n lib \<Rightarrow> ('n cell \<times> 'n cell) list \<Rightarrow> ('n cell \<times> 'n cell) list" where
  "group_keys L keys =
     sort_by (key_le L)
       (unique_by (key_eq L)
          (filter (\<lambda>k. \<not> cell_isna L (fst k) \<and> \<not> cell_isna L (snd k)) keys))"

text \<open>The number in a cell that enters the arithmetic or a number format.
  \<open>generate_response\<close> passes on the frame coerced by \<open>validate_data_types\<close>, whose
  columns \<open>quantity\<close> and \<open>price_usd\<close> hold numbers only; what the code does with another
  value there is not modelled.\<close>

definition number_of :: "'n cell \<Rightarrow> exn + 'n" where
  "number_of c =
     (case c of
        Num r \<Rightarrow> Inr r
      | _ \<Rightarrow> Inl (Unmodelled ''arithmetic on a value that is no number''))"

definition numbers :: "'n cell list \<Rightarrow> exn + 'n list" where
  "numbers col = sequence_r (map number_of col)"

text \<open>A row as the aggregation sees it: its key, its label, its quantity, its price.\<close>

type_synonym 'n entry = "('n cell \<times> 'n cell) \<times> 'n label \<times> 'n \<times> 'n"

text \<open>\<open>groupby([...]).agg({'quantity': 'sum', 'price_usd': lambda x: (df.loc[x.index,
  'quantity'] * x).sum()})\<close>: per group, the library's sum of the quantities of the group,
  and what the library makes of the lambda, from the labelled column \<open>df['quantity']\<close> of
  the whole frame and the labelled prices \<open>x\<close> of the group.\<close>

definition agg :: "'n lib \<Rightarrow> 'n entry list \<Rightarrow> (('n cell \<times> 'n cell) \<times> 'n \<times> 'n) list" where
  "agg L recs =
     map (\<lambda>k. let x = filter (\<lambda>r. key_eq L (fst r) k) recs
              in (k, group_sum L (map (\<lambda>r. fst (snd (snd r))) x),
                     loc_mul_sum L (map (\<lambda>r. (fst (snd r), fst (snd (snd r)))) recs)
                       (map (\<lambda>r. (fst (snd r), snd (snd (snd r)))) x)))
         (group_keys L (map fst recs))"

text \<open>\<open>reset_index()\<close>: the keys become columns and the rows get the labels
  \<open>0, 1, ...\<close>; then the column \<open>importance_score\<close> is added.\<close>

definition reset_index :: "'a list \<Rightarrow> (nat \<times> 'a) list" where
  "reset_index xs = zip [0..<length xs] xs"

definition with_importance ::
  "'n lib \<Rightarrow> ('n cell \<times> 'n cell) \<times> 'n \<times> 'n \<Rightarrow> 'n product_metric" where
  "with_importance L g =
     (case g of (k, tq, ts) \<Rightarrow>
        \<lparr>product_id = fst k, product_name = snd k, total_quantity = tq, total_spend = ts,
         importance_score = add L (half L tq) (half L ts)\<rparr>)"

text \<open>\<open>sort_values('importance_score', ascending=False)\<close>: the rows, with the labels they
  have, at the positions the library's sort gives (a sort gives each position of the frame
  once; a position outside the frame is passed over).\<close>

definition sort_values ::
  "'n lib \<Rightarrow> (nat \<times> 'n product_metric) list \<Rightarrow> (nat \<times> 'n product_metric) list" where
  "sort_values L ms =
     map (\<lambda>i. ms ! i)
       (filter (\<lambda>i. i < length ms) (argsort_desc L (map (\<lambda>m. importance_score (snd m)) ms)))"

text \<open>\<open>round(2)\<close> rounds every column of numeric dtype: the three metrics, and also a
  key column when the column of the frame it comes from has a numeric dtype.\<close>

definition round_key :: "'n lib \<Rightarrow> 'n cell list \<Rightarrow> 'n cell \<Rightarrow> 'n cell" where
  "round_key L col c =
     (if numeric_dtype L col then (case c of Num r \<Rightarrow> Num (round2 L r) | _ \<Rightarrow> c) else c)"

definition round_metric ::
  "'n lib \<Rightarrow> 'n cell list \<Rightarrow> 'n cell list \<Rightarrow> 'n product_metric \<Rightarrow> 'n product_metric" where
  "round_metric L pid pname m =
     \<lparr>product_id = round_key L pid (product_id m),
      product_name = round_key L pname (product_name m),
      total_quantity = round2 L (total_quantity m),
      total_spend = round2 L (total_spend m),
      importance_score = round2 L (importance_score m)\<rparr>"

text \<open>The column \<open>name\<close> handed to \<open>agg\<close>.\<close>

definition agg_column :: "'n dataframe \<Rightarrow> string \<Rightarrow> exn + 'n list" where
  "agg_column df name =
     (if name \<notin> set (columns df) then Inl (Unmodelled ''aggregation of a missing column'')
      else (case getitem df name of Inl e \<Rightarrow> Inl e | Inr col \<Rightarrow> numbers col))"

definition calculate_metrics ::
  "'n lib \<Rightarrow> 'n dataframe \<Rightarrow> exn + (nat \<times> 'n product_metric) list" where
  "calculate_metrics L df =
     (case getitem df ''product_id'' of
        Inl e \<Rightarrow> Inl e
      | Inr pid \<Rightarrow>
     (case getitem df ''product_name'' of
        Inl e \<Rightarrow> Inl e
      | Inr pname \<Rightarrow>
     (case agg_column df ''quantity'' of
        Inl e \<Rightarrow> Inl e
      | Inr q \<Rightarrow>
     (case agg_column df ''price_usd'' of
        Inl e \<Rightarrow> Inl e
      | Inr p \<Rightarrow>
          (let recs = zip (zip pid pname) (zip (map fst (rows df)) (zip q p));
               product_metrics = reset_index (map (with_importance L) (agg L recs))
           in Inr (map (\<lambda>m. (fst m, round_metric L pid pname (snd m)))
                     (sort_values L product_metrics)))))))"

subsection \<open>format_transaction_details\<close>

text \<open>\<open>row[name]\<close> for a row of the frame.\<close>

definition row_get :: "'n dataframe \<Rightarrow> 'n cell list \<Rightarrow> string \<Rightarrow> exn + 'n cell" where
  "row_get df r name =
     (if repeated name (columns df) then Inl (Unmodelled ''selection by a repeated label'')
      else
        (case find_label name (columns df) of
           None \<Rightarrow> Inl (KeyError name)
         | Some j \<Rightarrow> Inr (cell_at r j)))"

text \<open>The f-string appended for one row.\<close>

definition transaction_line :: "'n lib \<Rightarrow> 'n dataframe \<Rightarrow> 'n cell list \<Rightarrow> exn + string" where
  "transaction_line L df r =
     (case row_get df r ''transaction_id'' of
        Inl e \<Rightarrow> Inl e
      | Inr tid \<Rightarrow>
     (case row_get df r ''quantity'' of
        Inl e \<Rightarrow> Inl e
      | Inr qc \<Rightarrow>
     (case number_of qc of
        Inl e \<Rightarrow> Inl e
      | Inr q \<Rightarrow>
     (case to_int L q of
        Inl e \<Rightarrow> Inl e
      | Inr qi \<Rightarrow>
     (case row_get df r ''price_usd'' of
        Inl e \<Rightarrow> Inl e
      | Inr pc \<Rightarrow>
     (case number_of pc of
        Inl e \<Rightarrow> Inl e
      | Inr p \<Rightarrow>
          Inr (''Transaction '' @ str_cell L tid @ '': '' @ str_int qi @ '' units '' @
               times_sign @ '' $'' @ fmt_2f L p @ '' = $'' @ fmt_2f L (num_mul L q p))))))))"

text \<open>\<open>df[df['product_id'] == product_id]\<close>: the rows whose \<open>product_id\<close> equals the
  argument, in row order.\<close>

definition product_transactions ::
  "'n lib \<Rightarrow> 'n dataframe \<Rightarrow> 'n cell \<Rightarrow> exn + 'n cell list list" where
  "product_transactions L df pid =
     (case getitem df ''product_id'' of
        Inl e \<Rightarrow> Inl e
      | Inr col \<Rightarrow>
          Inr (map (\<lambda>cr. snd (snd cr)) (filter (\<lambda>cr. cell_eq L (fst cr) pid) (zip col (rows df)))))"

definition format_transaction_details ::
  "'n lib \<Rightarrow> 'n dataframe \<Rightarrow> 'n cell \<Rightarrow> exn + string" where
  "format_transaction_details L df pid =
     (case product_transactions L df pid of
        Inl e \<Rightarrow> Inl e
      | Inr rs \<Rightarrow>
          (case sequence_r (map (transaction_line L df) rs) of
             Inl e \<Rightarrow> Inl e
           | Inr details \<Rightarrow> Inr (join nl details)))"

subsection \<open>generate_response\<close>

text \<open>The entries appended to \<open>response\<close> by one pass of the loop over
  \<open>product_metrics.iterrows()\<close>; \<open>idx\<close> is the label of the row.\<close>

definition product_section ::
  "'n lib \<Rightarrow> 'n dataframe \<Rightarrow> nat \<times> 'n product_metric \<Rightarrow> exn + string list" where
  "product_section L df ir =
     (case ir of (idx, row) \<Rightarrow>
        (let rank = idx + 1
         in case format_transaction_details L df (product_id row) of
              Inl e \<Rightarrow> Inl e
            | Inr details \<Rightarrow>
                (case to_int L (total_quantity row) of
                   Inl e \<Rightarrow> Inl e
                 | Inr tq \<Rightarrow>
                Inr [nl @ ''Rank '' @ str_nat rank @ '': '' @ str_cell L (product_name row),
                     ''Detailed Calculations:'',
                     ''Individual Transactions:'',
                     details,
                     nl @ ''Total Quantity Calculation:'',
                     ''Total Quantity = '' @ str_int tq @ '' units'',
                     nl @ ''Total Spend Calculation:'',
                     ''Total Spend = $'' @ fmt_comma_2f L (total_spend row),
                     nl @ ''Importance Score Calculation:'',
                     ''Importance Score = (Total Quantity '' @ times_sign @ '' 0.5) + (Total Spend '' @
                       times_sign @ '' 0.5)'' @
                     nl @ ''= ('' @ str_int tq @ '' '' @ times_sign @
                       '' 0.5) + ('' @ fmt_2f L (total_spend row) @ '' '' @ times_sign @ '' 0.5)'' @
                     nl @ ''= '' @ fmt_2f L (half L (total_quantity row)) @ '' + '' @
                       fmt_2f L (half L (total_spend row)) @
                     nl @ ''= '' @ fmt_2f L (importance_score row),
                     nl @ ''Product Summary:'',
                     ''- Total Quantity: '' @ str_int tq @ '' units'',
                     ''- Total Spend: $'' @ fmt_comma_2f L (total_spend row),
                     ''- Importance Score: '' @ fmt_2f L (importance_score row),
                     nl @ dashes])))"

definition formulas_block :: "string list" where
  "formulas_block =
     [''Formulas Used:'',
      ''1. Total Quantity Formula:'',
      ''   Total Quantity = '' @ sum_sign @ ''(quantity for each transaction)'',
      nl @ ''2. Total Spend Formula:'',
      ''   Total Spend = '' @ sum_sign @ ''(quantity '' @ times_sign @
        '' price_usd for each transaction)'',
      nl @ ''3. Importance Score Formula:'',
      ''   Importance Score = (Total Quantity '' @ times_sign @ '' 0.5) + (Total Spend '' @
        times_sign @ '' 0.5)'']"

definition success_banner :: string where
  "success_banner = nl @ ''Data validation successful! Proceeding with analysis...''"

definition closing_prompt :: string where
  "closing_prompt =
     nl @ ''Would you like detailed calculations for any specific product? '' @
     ''Please rate this analysis from 1 to 5 stars.''"

text \<open>The list \<open>response\<close> of the success path, from the validation report, the coerced
  frame and the metrics.\<close>

definition success_response ::
  "'n lib \<Rightarrow> string list \<Rightarrow> 'n dataframe \<Rightarrow> (nat \<times> 'n product_metric) list \<Rightarrow>
   exn + string list" where
  "success_response L validation_report df product_metrics =
     (case sequence_r (map (product_section L df) product_metrics) of
        Inl e \<Rightarrow> Inl e
      | Inr sections \<Rightarrow>
          Inr (validation_report @
               [success_banner] @
               formulas_block @
               [nl @ ''Summary:'',
                ''Total number of products analyzed: '' @ str_nat (length product_metrics),
                nl @ ''Ranked List and Calculations:''] @
               concat sections @
               (if length product_metrics > 10
                then [nl @ ''Note: All products are shown with full calculations for transparency.'']
                else []) @
               [closing_prompt]))"

definition failure_footer :: "string list" where
  "failure_footer =
     [nl @ ''Data validation failed. Please correct the errors above.'',
      ''Would you like a template for the data input?'']"

text \<open>The list that \<open>generate_response\<close> joins, once the format check has given a frame.\<close>

definition response_of_frame ::
  "'n lib \<Rightarrow> recommender \<Rightarrow> 'n dataframe \<Rightarrow> exn + string list" where
  "response_of_frame L self df =
     (case format_validation_report L self df of
        Inl e \<Rightarrow> Inl e
      | Inr validation_report \<Rightarrow>
          (let is_valid_fields = fst (validate_required_fields L self df);
               (types_result, df') = validate_data_types L df;
               is_valid_types = fst types_result
           in if \<not> is_valid_fields \<or> \<not> is_valid_types
              then Inr (validation_report @ failure_footer)
              else
                (case calculate_metrics L df' of
                   Inl e \<Rightarrow> Inl e
                 | Inr product_metrics \<Rightarrow>
                     success_response L validation_report df' product_metrics)))"

definition template_offer :: string where
  "template_offer = nl @ nl @ ''Would you like a template for the data input?''"

definition generate_response :: "'n lib \<Rightarrow> recommender \<Rightarrow> string \<Rightarrow> exn + string" where
  "generate_response L self data =
     (case validate_data_format L data of
        (is_valid_format, format_message, df) \<Rightarrow>
          if \<not> is_valid_format
          then Inr (format_message @ template_offer)
          else
            (case df of
               None \<Rightarrow> Inl (Unmodelled ''a valid format without a frame'')
             | Some d \<Rightarrow>
                 (case response_of_frame L self d of
                    Inl e \<Rightarrow> Inl e
                  | Inr response \<Rightarrow> Inr (join nl response))))"

subsection \<open>Invocations on an instance\<close>

text \<open>The state an invocation runs in: the instance \<open>self\<close>, and the frames built so far,
  each at its address. \<open>validate_data_format\<close> builds a frame and returns its address;
  \<open>validate_data_types\<close> assigns two columns of the frame at the address it is given;
  the other methods read the frame at the address they are given.\<close>

record 'n world =
  receiver :: recommender
  frames :: "'n dataframe list"

definition validate_data_format_in ::
  "'n lib \<Rightarrow> string \<Rightarrow> 'n world \<Rightarrow> (bool \<times> string \<times> nat option) \<times> 'n world" where
  "validate_data_format_in L data w =
     (case validate_data_format L data of
        (ok, message, None) \<Rightarrow> ((ok, message, None), w)
      | (ok, message, Some df) \<Rightarrow>
          ((ok, message, Some (length (frames w))), w\<lparr>frames := frames w @ [df]\<rparr>))"

definition validate_data_types_in ::
  "'n lib \<Rightarrow> nat \<Rightarrow> 'n world \<Rightarrow> (bool \<times> string) \<times> 'n world" where
  "validate_data_types_in L a w =
     (case validate_data_types L (frames w ! a) of
        (result, df') \<Rightarrow> (result, w\<lparr>frames := (frames w)[a := df']\<rparr>))"

definition generate_response_in ::
  "'n lib \<Rightarrow> string \<Rightarrow> 'n world \<Rightarrow> (exn + string) \<times> 'n world" where
  "generate_response_in L data w =
     (case validate_data_format_in L data w of
        ((is_valid_format, format_message, df), w1) \<Rightarrow>
          if \<not> is_valid_format
          then (Inr (format_message @ template_offer), w1)
          else
            (case df of
               None \<Rightarrow> (Inl (Unmodelled ''a valid format without a frame''), w1)
             | Some a \<Rightarrow>
                 (case format_validation_report L (receiver w1) (frames w1 ! a) of
                    Inl e \<Rightarrow> (Inl e, w1)
                  | Inr validation_report \<Rightarrow>
                      (let is_valid_fields =
                             fst (validate_required_fields L (receiver w1) (frames w1 ! a));
                           (types_result, w2) = validate_data_types_in L a w1;
                           is_valid_types = fst types_result
                       in if \<not> is_valid_fields \<or> \<not> is_valid_types
                          then (Inr (join nl (validation_report @ failure_footer)), w2)
                          else
                            (case calculate_metrics L (frames w2 ! a) of
                               Inl e \<Rightarrow> (Inl e, w2)
                             | Inr product_metrics \<Rightarrow>
                                 (case success_response L validation_report (frames w2 ! a)
                                         product_metrics of
                                    Inl e \<Rightarrow> (Inl e, w2)
                                  | Inr response \<Rightarrow> (Inr (join nl response), w2)))))))"

text \<open>\<open>recommender = ProductRecommenderAI()\<close>, then two invocations in a row on that
  instance and one input string: the two values returned.\<close>

definition two_invocations :: "'n lib \<Rightarrow> string \<Rightarrow> (exn + string) \<times> (exn + string)" where
  "two_invocations L data =
     (let w0 = \<lparr>receiver = ProductRecommenderAI, frames = []\<rparr>;
          (r1, w1) = generate_response_in L data w0;
          (r2, w2) = generate_response_in L data w1
      in (r1, r2))"

section \<open>A library for the examples\<close>

text \<open>
  The examples below run the embedding on concrete inputs, with a library that does on
  those inputs what Python and pandas do. Its numbers are the rationals and \<open>NaN\<close>, and
  its arithmetic is exact: on the numbers of the examples (small integers and their halves,
  and 1.234, which is only rounded and compared) it gives what \<open>int64\<close> and \<open>float64\<close>
  arithmetic, rounding and formatting give. Its strings are ASCII. The theorems about
  every library do not depend on it.
\<close>

datatype number = Finite rat | NaN

definition is_space :: "char \<Rightarrow> bool" where
  "is_space c = (let n = (of_char c :: nat) in (9 \<le> n \<and> n \<le> 13) \<or> (28 \<le> n \<and> n \<le> 32))"

definition ascii_strip :: "string \<Rightarrow> string" where
  "ascii_strip s = rev (dropWhile is_space (rev (dropWhile is_space s)))"

definition lower_char :: "char \<Rightarrow> char" where
  "lower_char c = (let n = (of_char c :: nat) in if 65 \<le> n \<and> n \<le> 90 then char_of (n + 32) else c)"

definition ascii_lower :: "string \<Rightarrow> string" where
  "ascii_lower s = map lower_char s"

text \<open>\<open>int(x)\<close> truncates towards zero.\<close>

definition py_int :: "rat \<Rightarrow> int" where
  "py_int x = (if x < 0 then - \<lfloor>- x\<rfloor> else \<lfloor>x\<rfloor>)"

text \<open>Rounding to the nearest integer, ties to the even one.\<close>

definition round_half_even :: "rat \<Rightarrow> int" where
  "round_half_even x =
     (let f = \<lfloor>x\<rfloor>; d = x - of_int f
      in if d < 1 / 2 then f else if 1 / 2 < d then f + 1 else if even f then f else f + 1)"

definition rat_round2 :: "rat \<Rightarrow> rat" where
  "rat_round2 x = of_int (round_half_even (x * 100)) / 100"

text \<open>Digits in groups of three separated by commas, for the format \<open>,.2f\<close>.\<close>

fun str_nat_comma :: "nat \<Rightarrow> string" where
  "str_nat_comma n =
     (if n < 1000 then str_nat n
      else str_nat_comma (n div 1000) @ '','' @
           [digit_char (n mod 1000 div 100), digit_char (n mod 100 div 10), digit_char (n mod 10)])"

declare str_nat_comma.simps [simp del]

definition fmt_cents :: "(nat \<Rightarrow> string) \<Rightarrow> int \<Rightarrow> string" where
  "fmt_cents whole c =
     (let a = nat \<bar>c\<bar>
      in (if c < 0 then ''-'' else '''') @ whole (a div 100) @ ''.'' @
         [digit_char (a mod 100 div 10), digit_char (a mod 10)])"

definition number_fmt :: "(nat \<Rightarrow> string) \<Rightarrow> number \<Rightarrow> string" where
  "number_fmt whole x =
     (case x of Finite r \<Rightarrow> fmt_cents whole (round_half_even (r * 100)) | NaN \<Rightarrow> ''nan'')"

definition number_le_zero :: "number \<Rightarrow> bool" where
  "number_le_zero x = (case x of Finite r \<Rightarrow> r \<le> 0 | NaN \<Rightarrow> False)"

definition number_eq :: "number \<Rightarrow> number \<Rightarrow> bool" where
  "number_eq x y = (case (x, y) of (Finite a, Finite b) \<Rightarrow> a = b | _ \<Rightarrow> False)"

text \<open>The place of a number in a descending sort: greater numbers first, \<open>NaN\<close> last.\<close>

definition desc_key :: "number \<Rightarrow> nat \<times> rat" where
  "desc_key x = (case x of Finite r \<Rightarrow> (0, - r) | NaN \<Rightarrow> (1, 0))"

definition number_le :: "number \<Rightarrow> number \<Rightarrow> bool" where
  "number_le x y = (desc_key y \<le> desc_key x)"

definition number_op :: "(rat \<Rightarrow> rat \<Rightarrow> rat) \<Rightarrow> number \<Rightarrow> number \<Rightarrow> number" where
  "number_op f x y = (case (x, y) of (Finite a, Finite b) \<Rightarrow> Finite (f a b) | _ \<Rightarrow> NaN)"

text \<open>\<open>sum()\<close> skips \<open>NaN\<close>.\<close>

definition number_sum :: "number list \<Rightarrow> number" where
  "number_sum xs = Finite (sum_list (map (\<lambda>x. case x of Finite r \<Rightarrow> r | NaN \<Rightarrow> 0) xs))"

text \<open>\<open>df.loc[labels, 'quantity']\<close>: for each label asked for, every row that bears it.\<close>

definition loc :: "'l list \<Rightarrow> ('l \<times> number) list \<Rightarrow> ('l \<times> number) list" where
  "loc labels col = concat (map (\<lambda>l. filter (\<lambda>e. fst e = l) col) labels)"

text \<open>\<open>a * x\<close> on two Series: value by value when the two indexes are equal; otherwise
  the Series are aligned on their labels, and a label borne by several values on either
  side gives every product of a value on the left by a value on the right.\<close>

definition aligned_products :: "('l \<times> number) list \<Rightarrow> ('l \<times> number) list \<Rightarrow> number list" where
  "aligned_products a x =
     (if map fst a = map fst x then map (\<lambda>(u, v). number_op (*) (snd u) (snd v)) (zip a x)
      else concat (map (\<lambda>u. map (\<lambda>v. number_op (*) (snd u) (snd v))
                                (filter (\<lambda>v. fst v = fst u) x)) a))"

definition number_loc_mul_sum :: "('l \<times> number) list \<Rightarrow> ('l \<times> number) list \<Rightarrow> number" where
  "number_loc_mul_sum col x = number_sum (aligned_products (loc (map fst x) col) x)"

text \<open>A sort that keeps the positions of equal values in ascending order.\<close>

definition number_argsort_desc :: "number list \<Rightarrow> nat list" where
  "number_argsort_desc xs = sort_key (\<lambda>i. desc_key (xs ! i)) [0..<length xs]"

definition number_round2 :: "number \<Rightarrow> number" where
  "number_round2 x = (case x of Finite r \<Rightarrow> Finite (rat_round2 r) | NaN \<Rightarrow> NaN)"

definition number_to_int :: "number \<Rightarrow> exn + int" where
  "number_to_int x =
     (case x of
        Finite r \<Rightarrow> Inr (py_int r)
      | NaN \<Rightarrow> Inl (ValueError ''cannot convert float NaN to integer''))"

definition is_Num :: "'n cell \<Rightarrow> bool" where
  "is_Num c = (case c of Num r \<Rightarrow> True | _ \<Rightarrow> False)"

text \<open>The library without a parser: no text is CSV or JSON to it.\<close>

definition exact :: "number lib" where
  "exact =
     \<lparr>py_strip = ascii_strip,
      py_lower = ascii_lower,
      read_csv = (\<lambda>s. Inl (OtherError ''No columns to parse from file'')),
      json_loads = (\<lambda>s. Inl (JSONDecodeError ''Expecting value: line 1 column 1 (char 0)'')),
      DataFrame = (\<lambda>j. Inl (ValueError ''DataFrame constructor not properly called!'')),
      label_error = (\<lambda>j. None),
      not_iterable = (\<lambda>j. ''argument of this type is not iterable''),
      not_subscriptable = (\<lambda>j. ''indices must be integers''),
      to_numeric_str = (\<lambda>s. None),
      nan = NaN,
      is_nan = (\<lambda>x. x = NaN),
      le_zero = number_le_zero,
      num_eq = number_eq,
      num_le = number_le,
      numeric_dtype = (\<lambda>col. col \<noteq> [] \<and> list_all is_Num col),
      to_datetime_ok = (\<lambda>cols. True),
      group_sum = number_sum,
      loc_mul_sum = number_loc_mul_sum,
      half = (\<lambda>x. number_op (*) x (Finite (1 / 2))),
      add = number_op (+),
      num_mul = number_op (*),
      argsort_desc = number_argsort_desc,
      round2 = number_round2,
      to_int = number_to_int,
      fmt_2f = number_fmt str_nat,
      fmt_comma_2f = number_fmt str_nat_comma,
      str_num = (\<lambda>x. case x of Finite r \<Rightarrow> str_int (py_int r) | NaN \<Rightarrow> ''nan'')\<rparr>"

text \<open>A library that reads one CSV text as one frame, and one whose JSON parser reads one
  text as one JSON value, builds one frame from its transactions and converts the string
  \<open>2\<close> to the number 2.\<close>

definition csv_lib :: "string \<Rightarrow> number dataframe \<Rightarrow> number lib" where
  "csv_lib text df =
     exact\<lparr>read_csv :=
       (\<lambda>s. if s = text then Inr df else Inl (OtherError ''No columns to parse from file''))\<rparr>"

definition json_lib :: "string \<Rightarrow> number json \<Rightarrow> number dataframe \<Rightarrow> number lib" where
  "json_lib text j df =
     exact\<lparr>json_loads :=
             (\<lambda>s. if s = text then Inr j
                  else Inl (JSONDecodeError ''Expecting value: line 1 column 1 (char 0)'')),
           DataFrame := (\<lambda>v. Inr df),
           to_numeric_str := (\<lambda>s. if s = ''2'' then Some (Finite 2) else None)\<rparr>"

subsection \<open>Inputs used in the examples\<close>

definition seven_columns :: "string list" where
  "seven_columns =
     [''transaction_id'', ''customer_id'', ''transaction_date'',
      ''product_id'', ''product_name'', ''quantity'', ''price_usd'']"

definition seven_header :: string where
  "seven_header =
     ''transaction_id,customer_id,transaction_date,product_id,product_name,quantity,price_usd''"

text \<open>A frame with the default index, from its columns and the cells of its rows.\<close>

definition frame :: "string list \<Rightarrow> 'n cell list list \<Rightarrow> 'n dataframe" where
  "frame cs rs = \<lparr>columns = cs, rows = zip (map Position [0..<length rs]) rs\<rparr>"

text \<open>The \<open>example_data\<close> of the source's \<open>__main__\<close> block, the text left by
  \<open>strip\<close> and the frame \<open>read_csv\<close> makes of it.\<close>

definition example_text :: string where
  "example_text =
     seven_header @ nl @
     ''TX100,C100,2025-03-01,P100,QuantumMouse,2,25.0'' @ nl @
     ''TX101,C101,2025-03-02,P101,NeonKeyboard,1,75.0'' @ nl @
     ''TX102,C102,2025-03-03,P102,RetroMonitor,3,150.0'' @ nl @
     ''TX103,C103,2025-03-04,P100,QuantumMouse,1,25.0'' @ nl @
     ''TX104,C104,2025-03-05,P101,NeonKeyboard,2,75.0'' @ nl @
     ''TX105,C105,2025-03-06,P102,RetroMonitor,2,150.0''"

definition example_data :: string where
  "example_data = nl @ ''    '' @ example_text @ nl @ nl @ nl @ ''    ''"

definition example_frame :: "number dataframe" where
  "example_frame =
     frame seven_columns
       [[Str ''TX100'', Str ''C100'', Str ''2025-03-01'', Str ''P100'', Str ''QuantumMouse'',
         Num (Finite 2), Num (Finite 25)],
        [Str ''TX101'', Str ''C101'', Str ''2025-03-02'', Str ''P101'', Str ''NeonKeyboard'',
         Num (Finite 1), Num (Finite 75)],
        [Str ''TX102'', Str ''C102'', Str ''2025-03-03'', Str ''P102'', Str ''RetroMonitor'',
         Num (Finite 3), Num (Finite 150)],
        [Str ''TX103'', Str ''C103'', Str ''2025-03-04'', Str ''P100'', Str ''QuantumMouse'',
         Num (Finite 1), Num (Finite 25)],
        [Str ''TX104'', Str ''C104'', Str ''2025-03-05'', Str ''P101'', Str ''NeonKeyboard'',
         Num (Finite 2), Num (Finite 75)],
        [Str ''TX105'', Str ''C105'', Str ''2025-03-06'', Str ''P102'', Str ''RetroMonitor'',
         Num (Finite 2), Num (Finite 150)]]"

text \<open>The entries of \<open>response\<close> that open a product's section.\<close>

definition rank_entries :: "string list \<Rightarrow> string list" where
  "rank_entries response = filter (\<lambda>s. starts_with s (nl @ ''Rank '')) response"

text \<open>A CSV text whose header has no \<open>quantity\<close> column.\<close>

definition no_quantity_text :: string where
  "no_quantity_text = ''transaction_id,customer_id'' @ nl @ ''TX1,C1''"

definition no_quantity_frame :: "number dataframe" where
  "no_quantity_frame = frame [''transaction_id'', ''customer_id''] [[Str ''TX1'', Str ''C1'']]"

text \<open>A table with a non-positive and a non-numeric quantity and a zero price, one whose
  only fault is a zero price, one without fault, and one that has a valid quantity in its
  only row and no \<open>price_usd\<close> column.\<close>

definition bad_values_frame :: "number dataframe" where
  "bad_values_frame =
     frame [''quantity'', ''price_usd'']
       [[Num (Finite (- 1)), Num (Finite 0)], [Str ''abc'', Num (Finite 5)]]"

definition bad_price_frame :: "number dataframe" where
  "bad_price_frame =
     frame [''quantity'', ''price_usd'']
       [[Num (Finite 3), Num (Finite 0)], [Num (Finite 1), Num (Finite 5)]]"

definition good_values_frame :: "number dataframe" where
  "good_values_frame =
     frame [''quantity'', ''price_usd'']
       [[Num (Finite 3), Num (Finite 4)], [Num (Finite 1), Num (Finite 5)]]"

definition no_price_frame :: "number dataframe" where
  "no_price_frame = frame [''quantity''] [[Num (Finite 1)]]"




text \<open>Two products with one transaction each, quantity 1 and price 10.0; the product met
  first has the greater key.\<close>

definition tie_frame :: "number dataframe" where
  "tie_frame =
     frame seven_columns
       [[Str ''T1'', Str ''C1'', Str ''2025-03-01'', Str ''P2'', Str ''Beta'',
         Num (Finite 1), Num (Finite 10)],
        [Str ''T2'', Str ''C2'', Str ''2025-03-02'', Str ''P1'', Str ''Alpha'',
         Num (Finite 1), Num (Finite 10)]]"

definition tie_metrics :: "(nat \<times> number product_metric) list" where
  "tie_metrics =
     [(0, \<lparr>product_id = Str ''P1'', product_name = Str ''Alpha'', total_quantity = Finite 1,
            total_spend = Finite 10, importance_score = Finite (11 / 2)\<rparr>),
      (1, \<lparr>product_id = Str ''P2'', product_name = Str ''Beta'', total_quantity = Finite 1,
            total_spend = Finite 10, importance_score = Finite (11 / 2)\<rparr>)]"

text \<open>A JSON envelope with one order whose quantity is the JSON string "2": as text, as
  parsed JSON and as the frame built from it.\<close>

definition quoted :: "string \<Rightarrow> string" where
  "quoted s = [CHR 0x22] @ s @ [CHR 0x22]"

definition order_text :: string where
  "order_text =
     ''{'' @ quoted ''transactions'' @ '': [{'' @
     quoted ''transaction_id'' @ '': '' @ quoted ''T1'' @ '', '' @
     quoted ''customer_id'' @ '': '' @ quoted ''C1'' @ '', '' @
     quoted ''transaction_date'' @ '': '' @ quoted ''2025-03-01'' @ '', '' @
     quoted ''product_id'' @ '': '' @ quoted ''P1'' @ '', '' @
     quoted ''product_name'' @ '': '' @ quoted ''Alpha'' @ '', '' @
     quoted ''quantity'' @ '': '' @ quoted ''2'' @ '', '' @
     quoted ''price_usd'' @ '': 10.0}]}''"

definition order_json :: "number json" where
  "order_json =
     JObject [(''transactions'',
       JArray [JObject [(''transaction_id'', JString ''T1''), (''customer_id'', JString ''C1''),
                        (''transaction_date'', JString ''2025-03-01''),
                        (''product_id'', JString ''P1''), (''product_name'', JString ''Alpha''),
                        (''quantity'', JString ''2''), (''price_usd'', JNumber (Finite 10))]])]"

definition order_frame :: "number dataframe" where
  "order_frame =
     frame seven_columns
       [[Str ''T1'', Str ''C1'', Str ''2025-03-01'', Str ''P1'', Str ''Alpha'', Str ''2'',
         Num (Finite 10)]]"

definition order_lib :: "number lib" where
  "order_lib = json_lib order_text order_json order_frame"




text \<open>Two products that share the number 1.234 as \<open>product_id\<close> under two names.\<close>

definition float_id_frame :: "number dataframe" where
  "float_id_frame =
     frame seven_columns
       [[Str ''T1'', Str ''C1'', Str ''2025-03-01'', Num (Finite (1234 / 1000)), Str ''Alpha'',
         Num (Finite 1), Num (Finite 10)],
        [Str ''T2'', Str ''C2'', Str ''2025-03-02'', Num (Finite (1234 / 1000)), Str ''Beta'',
         Num (Finite 2), Num (Finite 10)]]"

definition float_id_text :: string where
  "float_id_text =
     seven_header @ nl @
     ''T1,C1,2025-03-01,1.234,Alpha,1,10.0'' @ nl @
     ''T2,C2,2025-03-02,1.234,Beta,2,10.0''"

text \<open>A CSV text whose rows have one field more than the header: \<open>read_csv\<close> takes the
  first field of every row, here \<open>r\<close> twice, as the label of the row.\<close>

definition labelled_text :: string where
  "labelled_text =
     seven_header @ nl @
     ''r,T1,C1,2025-03-01,P1,Alpha,1,10.0'' @ nl @
     ''r,T2,C2,2025-03-02,P2,Beta,2,20.0''"

definition labelled_frame :: "number dataframe" where
  "labelled_frame =
     \<lparr>columns = seven_columns,
      rows =
        [(Value (Str ''r''),
          [Str ''T1'', Str ''C1'', Str ''2025-03-01'', Str ''P1'', Str ''Alpha'',
           Num (Finite 1), Num (Finite 10)]),
         (Value (Str ''r''),
          [Str ''T2'', Str ''C2'', Str ''2025-03-02'', Str ''P2'', Str ''Beta'',
           Num (Finite 2), Num (Finite 20)])]\<rparr>"

section \<open>Properties\<close>

subsection \<open>Notions used in the statements\<close>

text \<open>The values under a label: those of the first column that bears it, none when no
  column does. A label that occurs once names one column.\<close>

definition column :: "'n dataframe \<Rightarrow> string \<Rightarrow> 'n cell list" where
  "column df name =
     (case find_label name (columns df) of
        None \<Rightarrow> []
      | Some j \<Rightarrow> map (\<lambda>r. cell_at (snd r) j) (rows df))"

definition occurs_once :: "string \<Rightarrow> string list \<Rightarrow> bool" where
  "occurs_once name cs = (length (filter (\<lambda>c. c = name) cs) = 1)"

text \<open>A coerced value is invalid when it is missing, \<open>NaN\<close>, or a number that is not
  positive; the coerced values of a column are what \<open>pd.to_numeric(errors='coerce')\<close>
  makes of its values.\<close>

definition null_or_nonpositive :: "'n lib \<Rightarrow> 'n cell \<Rightarrow> bool" where
  "null_or_nonpositive L c =
     (case c of Null \<Rightarrow> True | Num r \<Rightarrow> is_nan L r \<or> le_zero L r | Str s \<Rightarrow> False)"

definition coerced :: "'n lib \<Rightarrow> 'n dataframe \<Rightarrow> string \<Rightarrow> 'n cell list" where
  "coerced L df name = to_numeric L (column df name)"

text \<open>What the statements about every library ask of the library: that the sort behind
  \<open>sort_values(ascending=False)\<close> arranges the positions so that no value is followed by
  a greater one, that rounding to 2 decimals keeps the order of two numbers, and that
  \<open>lower\<close> and \<open>strip\<close> leave the names of the required fields as they are.\<close>

definition sorts_descending :: "'n lib \<Rightarrow> bool" where
  "sorts_descending L =
     (\<forall>xs. sorted_wrt (\<lambda>i j. num_le L (xs ! j) (xs ! i)) (argsort_desc L xs))"

definition round_monotone :: "'n lib \<Rightarrow> bool" where
  "round_monotone L = (\<forall>x y. num_le L x y \<longrightarrow> num_le L (round2 L x) (round2 L y))"


text \<open>The keys of the rows in row order, and the keys in the order in which the rows
  first show them.\<close>

definition keys_of :: "'n dataframe \<Rightarrow> ('n cell \<times> 'n cell) list" where
  "keys_of df = zip (column df ''product_id'') (column df ''product_name'')"

definition first_encounter :: "'n lib \<Rightarrow> 'n dataframe \<Rightarrow> ('n cell \<times> 'n cell) list" where
  "first_encounter L df = unique_by (key_eq L) (keys_of df)"

text \<open>The total spend of a group as the specification defines it: the sum, over exactly
  the rows of the group, of the product of the quantity and the price of the row.\<close>

definition value_of :: "'n lib \<Rightarrow> 'n cell \<Rightarrow> 'n" where
  "value_of L c = (case c of Num r \<Rightarrow> r | _ \<Rightarrow> nan L)"

definition spend_of_rows :: "'n lib \<Rightarrow> 'n dataframe \<Rightarrow> 'n cell \<times> 'n cell \<Rightarrow> 'n" where
  "spend_of_rows L df k =
     group_sum L
       (map (\<lambda>r. num_mul L (value_of L (fst (snd r))) (value_of L (snd (snd r))))
          (filter (\<lambda>r. key_eq L (fst r) k)
             (zip (keys_of df) (zip (column df ''quantity'') (column df ''price_usd'')))))"

text \<open>The fourth entry of a product's section is its Individual Transactions listing.\<close>

definition listing :: "string list \<Rightarrow> string" where
  "listing section_entries = section_entries ! 3"

section \<open>Proofs\<close>

subsection \<open>Frames: labels, columns, assignment\<close>

lemma find_label_Some: "find_label n cs = Some j \<Longrightarrow> j < length cs \<and> cs ! j = n"
  by (induction cs arbitrary: j) (auto split: if_splits)

lemma find_label_None: "find_label n cs = None \<longleftrightarrow> n \<notin> set cs"
  by (induction cs) auto

lemma find_label_inj:
  "find_label n cs = Some j \<Longrightarrow> find_label n' cs = Some j' \<Longrightarrow> n \<noteq> n' \<Longrightarrow> j \<noteq> j'"
  using find_label_Some by blast

lemma columns_setitem [simp]: "columns (setitem df n col) = columns df"
  by (simp add: setitem_def split: option.splits)

lemma occurs_once_present: "occurs_once n cs \<Longrightarrow> n \<in> set cs"
proof (rule ccontr)
  assume "occurs_once n cs" "n \<notin> set cs"
  then have "filter (\<lambda>c. c = n) cs = []" "length (filter (\<lambda>c. c = n) cs) = 1"
    by (auto simp: occurs_once_def filter_empty_conv)
  then show False by simp
qed

lemma occurs_once_not_repeated: "occurs_once n cs \<Longrightarrow> \<not> repeated n cs"
  by (simp add: occurs_once_def repeated_def)

lemma getitem_once:
  assumes "occurs_once n (columns df)"
  shows "getitem df n = Inr (column df n)"
proof -
  from occurs_once_present[OF assms] obtain j where "find_label n (columns df) = Some j"
    using find_label_None[of n "columns df"] by (cases "find_label n (columns df)") auto
  with occurs_once_not_repeated[OF assms] show ?thesis
    by (simp add: getitem_def column_def)
qed

lemma length_column: "n \<in> set (columns df) \<Longrightarrow> length (column df n) = length (rows df)"
  using find_label_None[of n "columns df"] by (auto simp: column_def split: option.splits)

lemma cell_at_put_cell: "cell_at (put_cell r j v) j = v"
proof -
  have "j < length (r @ replicate (Suc j - length r) Null)"
    by simp
  then show ?thesis
    by (simp only: cell_at_def put_cell_def length_list_update nth_list_update_eq if_True)
qed

lemma cell_at_put_cell_other: "j \<noteq> j' \<Longrightarrow> cell_at (put_cell r j v) j' = cell_at r j'"
  by (auto simp: cell_at_def put_cell_def nth_append)

lemma map_update_other:
  assumes "j \<noteq> j'" "length ys = length xs"
  shows "map (\<lambda>r. cell_at (snd r) j') (map (\<lambda>(r, v). (fst r, put_cell (snd r) j v)) (zip xs ys)) =
         map (\<lambda>r. cell_at (snd r) j') xs"
  using assms(2)
  by (induction xs arbitrary: ys) (auto simp: length_Suc_conv cell_at_put_cell_other assms(1))

lemma column_setitem_other:
  assumes "n \<noteq> n'" "length col = length (rows df)"
  shows "column (setitem df n col) n' = column df n'"
proof (cases "find_label n (columns df)")
  case None
  then show ?thesis by (simp add: setitem_def)
next
  case (Some j)
  show ?thesis
  proof (cases "find_label n' (columns df)")
    case None
    then show ?thesis by (simp add: column_def)
  next
    case (Some j')
    with \<open>find_label n (columns df) = Some j\<close> assms(1) have "j \<noteq> j'"
      using find_label_inj by blast
    then have "map (\<lambda>r. cell_at (snd r) j')
        (map (\<lambda>(r, v). (fst r, put_cell (snd r) j v)) (zip (rows df) col)) =
        map (\<lambda>r. cell_at (snd r) j') (rows df)"
      using assms(2) by (rule map_update_other)
    with Some \<open>find_label n (columns df) = Some j\<close> show ?thesis
      by (simp add: column_def setitem_def)
  qed
qed

lemma length_to_numeric [simp]: "length (to_numeric L col) = length col"
  by (simp add: to_numeric_def)

lemma column_setitem_to_numeric:
  "column (setitem df n (to_numeric L (column df n))) n = to_numeric L (column df n)"
proof (cases "find_label n (columns df)")
  case None
  then show ?thesis by (simp add: setitem_def column_def to_numeric_def)
next
  case (Some j)
  have "map (\<lambda>r. cell_at (snd r) j)
      (map (\<lambda>(r, v). (fst r, put_cell (snd r) j v))
         (zip rs (to_numeric L (map (\<lambda>r. cell_at (snd r) j) rs)))) =
      to_numeric L (map (\<lambda>r. cell_at (snd r) j) rs)" for rs :: "('a label \<times> 'a cell list) list"
    by (induction rs) (auto simp: to_numeric_def cell_at_put_cell)
  with Some show ?thesis by (simp add: column_def setitem_def)
qed

lemma to_numeric_no_Str: "c \<in> set (to_numeric L col) \<Longrightarrow> \<not> is_Str c"
  by (auto simp: to_numeric_def to_numeric_cell_def is_Str_def split: cell.splits option.splits)

lemma count_mask:
  "length (filter (\<lambda>(a, b). a \<or> b) (zip (isna L col) (map f col))) =
   length (filter (\<lambda>c. cell_isna L c \<or> f c) col)"
  by (induction col) (auto simp: isna_def)

lemma invalid_rows_count:
  assumes "occurs_once n (columns df)" "\<forall>c \<in> set (column df n). \<not> is_Str c"
  shows "invalid_rows L df n = Inr (length (filter (null_or_nonpositive L) (column df n)))"
proof -
  have "(\<lambda>c. cell_isna L c \<or> (case c of Num r \<Rightarrow> le_zero L r | _ \<Rightarrow> False)) =
      null_or_nonpositive L"
    by (auto simp: null_or_nonpositive_def cell_isna_def fun_eq_iff split: cell.splits)
  with assms(2) show ?thesis
    by (simp add: invalid_rows_def getitem_once[OF assms(1)] col_le_zero_def count_mask)
qed

lemma to_numeric_column_once:
  "occurs_once n (columns df) \<Longrightarrow> to_numeric_column L df n = Inr (coerced L df n)"
  by (simp add: to_numeric_column_def occurs_once_not_repeated getitem_once coerced_def)

lemma validate_data_types_eq:
  assumes q: "occurs_once ''quantity'' (columns df)" and p: "occurs_once ''price_usd'' (columns df)"
  shows "validate_data_types L df =
    ((if \<exists>c \<in> set (coerced L df ''quantity''). null_or_nonpositive L c
      then (False, quantity_message)
      else if \<exists>c \<in> set (coerced L df ''price_usd''). null_or_nonpositive L c
      then (False, price_message)
      else (True, ''Success'')),
     setitem (setitem df ''quantity'' (coerced L df ''quantity'')) ''price_usd''
       (coerced L df ''price_usd''))"
proof -
  let ?q = "coerced L df ''quantity''" and ?p = "coerced L df ''price_usd''"
  let ?df1 = "setitem df ''quantity'' ?q"
  let ?df2 = "setitem ?df1 ''price_usd'' ?p"
  have lq: "length ?q = length (rows df)"
    using length_column[OF occurs_once_present[OF q]] by (simp add: coerced_def)
  have p1: "column ?df1 ''price_usd'' = column df ''price_usd''"
    using column_setitem_other[of "''quantity''" "''price_usd''" ?q df] lq by simp
  have o1: "occurs_once ''quantity'' (columns ?df1)" "occurs_once ''price_usd'' (columns ?df1)"
    using q p by simp_all
  have o2: "occurs_once ''quantity'' (columns ?df2)" "occurs_once ''price_usd'' (columns ?df2)"
    using q p by simp_all
  have c1: "coerced L ?df1 ''price_usd'' = ?p"
    using p1 by (simp only: coerced_def)
  have lp: "length ?p = length (rows ?df1)"
    using length_column[OF occurs_once_present[OF o1(2)]] p1 by (simp add: coerced_def)
  have q1: "column ?df1 ''quantity'' = ?q"
    unfolding coerced_def by (rule column_setitem_to_numeric)
  have q2: "column ?df2 ''quantity'' = ?q"
    using column_setitem_other[of "''price_usd''" "''quantity''" ?p ?df1] lp q1 by simp
  have "column (setitem ?df1 ''price_usd'' (to_numeric L (column ?df1 ''price_usd''))) ''price_usd'' =
      to_numeric L (column ?df1 ''price_usd'')"
    by (rule column_setitem_to_numeric)
  then have p2: "column ?df2 ''price_usd'' = ?p"
    using p1 by (simp only: coerced_def)
  have "\<forall>c \<in> set ?q. \<not> is_Str c" "\<forall>c \<in> set ?p. \<not> is_Str c"
    unfolding coerced_def using to_numeric_no_Str by blast+
  then have ns: "\<forall>c \<in> set (column ?df2 ''quantity''). \<not> is_Str c"
    "\<forall>c \<in> set (column ?df2 ''price_usd''). \<not> is_Str c"
    by (simp_all only: q2 p2)
  have iq: "invalid_rows L ?df2 ''quantity'' = Inr (length (filter (null_or_nonpositive L) ?q))"
    using invalid_rows_count[OF o2(1) ns(1), of L] by (simp only: q2)
  have ip: "invalid_rows L ?df2 ''price_usd'' = Inr (length (filter (null_or_nonpositive L) ?p))"
    using invalid_rows_count[OF o2(2) ns(2), of L] by (simp only: p2)
  show ?thesis
    unfolding validate_data_types_def
    by (simp add: to_numeric_column_once[OF q] to_numeric_column_once[OF o1(2)] c1 iq ip
        Let_def filter_empty_conv)
qed


subsection \<open>Type validation\<close>

text \<open>
  Claim C5, as amended. On a table in which \<open>quantity\<close> and \<open>price_usd\<close> each label
  exactly one column, \<open>validate_data_types\<close> returns the quantity message when some
  coerced quantity is missing, \<open>NaN\<close> or not positive, whatever the prices are; the price
  message when every coerced quantity is valid and some coerced price is not; and success
  when no coerced quantity and no coerced price is invalid. So on such a table it fails
  if and only if some row holds an invalid quantity or an invalid price.
\<close>

theorem validate_data_types_messages:
  assumes "occurs_once ''quantity'' (columns df)" and "occurs_once ''price_usd'' (columns df)"
  shows "fst (validate_data_types L df) =
           (if \<exists>c \<in> set (coerced L df ''quantity''). null_or_nonpositive L c
            then (False, quantity_message)
            else if \<exists>c \<in> set (coerced L df ''price_usd''). null_or_nonpositive L c
            then (False, price_message)
            else (True, ''Success'')) \<and>
         (fst (fst (validate_data_types L df)) = False \<longleftrightarrow>
            (\<exists>c \<in> set (coerced L df ''quantity''). null_or_nonpositive L c) \<or>
            (\<exists>c \<in> set (coerced L df ''price_usd''). null_or_nonpositive L c))"
  unfolding validate_data_types_eq[OF assms] by simp

theorem validate_data_types_messages_witness:
  "fst (validate_data_types exact bad_values_frame) = (False, quantity_message) \<and>
   fst (validate_data_types exact bad_price_frame) = (False, price_message) \<and>
   fst (validate_data_types exact good_values_frame) = (True, ''Success'')"
proof -
  have o: "occurs_once ''quantity'' (columns bad_values_frame)"
    "occurs_once ''price_usd'' (columns bad_values_frame)"
    "occurs_once ''quantity'' (columns bad_price_frame)"
    "occurs_once ''price_usd'' (columns bad_price_frame)"
    "occurs_once ''quantity'' (columns good_values_frame)"
    "occurs_once ''price_usd'' (columns good_values_frame)"
    by code_simp+
  have a: "\<exists>c \<in> set (coerced exact bad_values_frame ''quantity''). null_or_nonpositive exact c"
    by code_simp
  have b: "\<not> (\<exists>c \<in> set (coerced exact bad_price_frame ''quantity''). null_or_nonpositive exact c)"
    "\<exists>c \<in> set (coerced exact bad_price_frame ''price_usd''). null_or_nonpositive exact c"
    by code_simp+
  have c: "\<not> (\<exists>c \<in> set (coerced exact good_values_frame ''quantity''). null_or_nonpositive exact c)"
    "\<not> (\<exists>c \<in> set (coerced exact good_values_frame ''price_usd''). null_or_nonpositive exact c)"
    by code_simp+
  show ?thesis
    using validate_data_types_messages[OF o(1,2), of exact]
      validate_data_types_messages[OF o(3,4), of exact]
      validate_data_types_messages[OF o(5,6), of exact] a b c
    by simp
qed

text \<open>
  Claim C5 as stated fails on a table that has no \<open>price_usd\<close> column: its only row
  holds the valid quantity 1, no coerced quantity or price is invalid, and
  \<open>validate_data_types\<close> fails, with the message of its \<open>except\<close> branch.
\<close>

theorem missing_price_column_counterexample:
  "fst (validate_data_types exact no_price_frame) =
     (False, ''ERROR: Data type validation failed. '' @ quote @ ''price_usd'' @ quote) \<and>
   filter (null_or_nonpositive exact) (coerced exact no_price_frame ''quantity'') = [] \<and>
   filter (null_or_nonpositive exact) (coerced exact no_price_frame ''price_usd'') = []"
  by code_simp


subsection \<open>Format errors\<close>





subsection \<open>Two invocations\<close>

lemma generate_response_in_eq:
  "generate_response_in L data w =
     (generate_response L (receiver w) data,
      (case validate_data_format L data of
         (ok, message, None) \<Rightarrow> w
       | (ok, message, Some df) \<Rightarrow>
           (case format_validation_report L (receiver w) df of
              Inl e \<Rightarrow> w\<lparr>frames := frames w @ [df]\<rparr>
            | Inr report \<Rightarrow>
                if ok then w\<lparr>frames := frames w @ [snd (validate_data_types L df)]\<rparr>
                else w\<lparr>frames := frames w @ [df]\<rparr>)))"
  by (simp add: generate_response_in_def generate_response_def validate_data_format_in_def
      validate_data_types_in_def response_of_frame_def Let_def
      split: prod.splits option.splits sum.splits)

lemma receiver_after:
  "receiver (snd (generate_response_in L data w)) = receiver w"
  by (simp add: generate_response_in_eq split: prod.splits option.splits sum.splits)

text \<open>
  Claim C8. An invocation of \<open>generate_response\<close> returns what the invocation before it
  returned on the same input string: the state the first one leaves (the instance, which no
  method assigns to, and the frame it built and coerced in place) does not reach the
  second, which builds its own frame. So do the two invocations made in a row on a new
  instance. An invocation leaves the instance and the frames built before it as they were.
  The calls of the library are functions of their arguments.
\<close>

theorem generate_response_deterministic:
  "fst (generate_response_in L data (snd (generate_response_in L data w))) =
     fst (generate_response_in L data w) \<and>
   fst (two_invocations L data) = snd (two_invocations L data) \<and>
   receiver (snd (generate_response_in L data w)) = receiver w \<and>
   take (length (frames w)) (frames (snd (generate_response_in L data w))) = frames w"
proof -
  have a: "fst (generate_response_in L data w') = generate_response L (receiver w') data" for w'
    by (simp add: generate_response_in_eq)
  have b: "fst (generate_response_in L data (snd (generate_response_in L data w'))) =
     fst (generate_response_in L data w')" for w'
    by (simp only: a receiver_after)
  have c: "fst (two_invocations L data) = snd (two_invocations L data)"
    using b by (simp add: two_invocations_def Let_def split: prod.splits) (metis fst_conv snd_conv)
  have d: "take (length (frames w)) (frames (snd (generate_response_in L data w))) = frames w"
    by (simp add: generate_response_in_eq split: prod.splits option.splits sum.splits)
  from b c d show ?thesis
    by (simp only: receiver_after simp_thms)
qed

theorem generate_response_deterministic_witness:
  "fst (two_invocations (csv_lib example_text example_frame) example_data) =
     snd (two_invocations (csv_lib example_text example_frame) example_data) \<and>
   map_sum id (\<lambda>text. starts_with text ''Data Validation Report:'')
     (fst (two_invocations (csv_lib example_text example_frame) example_data)) = Inr True \<and>
   length (frames (snd (generate_response_in (csv_lib example_text example_frame) example_data
     (snd (generate_response_in (csv_lib example_text example_frame) example_data
        \<lparr>receiver = ProductRecommenderAI, frames = []\<rparr>))))) = 2"
proof -
  have a: "map_sum id (\<lambda>text. starts_with text ''Data Validation Report:'')
     (fst (two_invocations (csv_lib example_text example_frame) example_data)) = Inr True"
    by code_simp
  have b: "length (frames (snd (generate_response_in (csv_lib example_text example_frame) example_data
     (snd (generate_response_in (csv_lib example_text example_frame) example_data
        \<lparr>receiver = ProductRecommenderAI, frames = []\<rparr>))))) = 2"
    by code_simp
  from generate_response_deterministic[of "csv_lib example_text example_frame" example_data] a b
  show ?thesis by simp
qed


subsection \<open>The ranks printed\<close>

text \<open>
  Claim C1, on the \<open>example_data\<close> of the source. The product with the highest importance
  score, RetroMonitor, heads the ranked list and is printed as rank 3; the lowest,
  QuantumMouse, comes last and is printed as rank 1. The number printed is the label the
  row got from \<open>reset_index\<close> (its place among the sorted group keys) plus one, not its
  place in the list sorted by score.
\<close>

theorem rank_printed_is_index_label:
  "validate_data_format (csv_lib example_text example_frame) example_data =
     (True, ''Success'', Some example_frame) \<and>
   map_sum id rank_entries
     (response_of_frame (csv_lib example_text example_frame) ProductRecommenderAI example_frame) =
     Inr [nl @ ''Rank 3: RetroMonitor'', nl @ ''Rank 2: NeonKeyboard'', nl @ ''Rank 1: QuantumMouse''] \<and>
   map_sum id (map (\<lambda>m. (product_name (snd m), importance_score (snd m))))
     (calculate_metrics (csv_lib example_text example_frame) example_frame) =
     Inr [(Str ''RetroMonitor'', Finite (755 / 2)), (Str ''NeonKeyboard'', Finite 114),
          (Str ''QuantumMouse'', Finite 39)]"
  by code_simp

theorem rank_printed_is_index_label_witness:
  "map_sum id rank_entries
     (response_of_frame (csv_lib example_text example_frame) ProductRecommenderAI example_frame) \<noteq>
   Inr [nl @ ''Rank 1: RetroMonitor'', nl @ ''Rank 2: NeonKeyboard'', nl @ ''Rank 3: QuantumMouse'']"
  using rank_printed_is_index_label by simp

subsection \<open>Exceptions that leave generate_response\<close>

text \<open>
  Claim C3, on a CSV text whose header has no \<open>quantity\<close> column: the \<open>KeyError\<close> raised
  by \<open>df['quantity']\<close> while the validation report is built leaves \<open>generate_response\<close>
  uncaught; no report is returned.
\<close>

theorem missing_quantity_raises:
  "validate_data_format (csv_lib no_quantity_text no_quantity_frame) no_quantity_text =
     (True, ''Success'', Some no_quantity_frame) \<and>
   generate_response (csv_lib no_quantity_text no_quantity_frame) ProductRecommenderAI
     no_quantity_text = Inl (KeyError ''quantity'')"
  by code_simp

text \<open>
  Claim C6, on a JSON envelope whose quantity is the string "2" (its date is a calendar
  date). The table passes \<open>validate_required_fields\<close> and \<open>validate_data_types\<close> (the
  string coerces to 2), but the validation report compares the column with 0 before it is
  coerced: \<open>generate_response\<close> ends in a \<open>TypeError\<close> and returns no report.
\<close>

theorem string_quantity_raises:
  "validate_data_format order_lib order_text = (True, ''Success'', Some order_frame) \<and>
   validate_required_fields order_lib ProductRecommenderAI order_frame = (True, ''Success'') \<and>
   fst (validate_data_types order_lib order_frame) = (True, ''Success'') \<and>
   generate_response order_lib ProductRecommenderAI order_text = Inl (TypeError str_le_int)"
  by code_simp


subsection \<open>The metrics\<close>

lemma round_half_even_mono:
  assumes "x \<le> y"
  shows "round_half_even x \<le> round_half_even y"
proof -
  have f: "\<lfloor>x\<rfloor> \<le> \<lfloor>y\<rfloor>" using assms by (rule floor_mono)
  have lx: "round_half_even x \<le> \<lfloor>x\<rfloor> + 1" and ly: "\<lfloor>y\<rfloor> \<le> round_half_even y"
    by (simp_all add: round_half_even_def Let_def)
  show ?thesis
  proof (cases "\<lfloor>x\<rfloor> < \<lfloor>y\<rfloor>")
    case True
    with lx ly show ?thesis by linarith
  next
    case False
    with f have e: "\<lfloor>x\<rfloor> = \<lfloor>y\<rfloor>" by simp
    then have "x - of_int \<lfloor>y\<rfloor> \<le> y - of_int \<lfloor>y\<rfloor>" using assms by simp
    then show ?thesis
      unfolding round_half_even_def Let_def e by auto
  qed
qed

lemma rat_round2_mono: "x \<le> y \<Longrightarrow> rat_round2 x \<le> rat_round2 y"
  using round_half_even_mono[of "x * 100" "y * 100"]
  by (simp add: rat_round2_def divide_right_mono)

lemma exact_fields:
  "num_le exact = number_le" "round2 exact = number_round2"
  "argsort_desc exact = number_argsort_desc"
  by (simp_all add: exact_def)

lemma round_monotone_exact: "round_monotone exact"
  unfolding round_monotone_def exact_fields
proof (intro allI impI)
  fix x y assume "number_le x y"
  then show "number_le (number_round2 x) (number_round2 y)"
    by (cases x; cases y)
       (auto simp: number_le_def desc_key_def number_round2_def rat_round2_mono)
qed

lemma sorts_descending_exact: "sorts_descending exact"
  unfolding sorts_descending_def exact_fields
proof
  fix xs :: "number list"
  have "sorted (map (\<lambda>i. desc_key (xs ! i)) (sort_key (\<lambda>i. desc_key (xs ! i)) [0..<length xs]))"
    by (rule sorted_sort_key)
  then show "sorted_wrt (\<lambda>i j. number_le (xs ! j) (xs ! i)) (number_argsort_desc xs)"
    by (simp add: sorted_wrt_map number_le_def number_argsort_desc_def)
qed

lemma sort_values_sorted:
  assumes "sorts_descending L"
  shows "sorted_wrt (\<lambda>a b. num_le L (importance_score (snd b)) (importance_score (snd a)))
           (sort_values L ms)"
proof -
  let ?s = "map (\<lambda>m. importance_score (snd m)) ms"
  let ?ix = "filter (\<lambda>i. i < length ms) (argsort_desc L ?s)"
  have "sorted_wrt (\<lambda>i j. num_le L (?s ! j) (?s ! i)) (argsort_desc L ?s)"
    using assms by (simp add: sorts_descending_def)
  then have "sorted_wrt (\<lambda>i j. num_le L (?s ! j) (?s ! i)) ?ix"
    by (rule sorted_wrt_filter)
  then have "sorted_wrt (\<lambda>i j. num_le L (importance_score (snd (ms ! j)))
                                        (importance_score (snd (ms ! i)))) ?ix"
    by (rule sorted_wrt_mono_rel[rotated]) auto
  then show ?thesis
    by (simp add: sort_values_def sorted_wrt_map)
qed

lemma calculate_metrics_shape:
  assumes "calculate_metrics L df = Inr ms"
  shows "\<exists>pid pname xs. ms = map (\<lambda>m. (fst m, round_metric L pid pname (snd m))) (sort_values L xs)"
  using assms
  by (auto simp: calculate_metrics_def Let_def split: sum.splits)

text \<open>
  Claim C2, as amended. With a library whose descending sort lets no value be followed by
  a greater one and whose rounding keeps the order of two numbers, the rows that
  \<open>calculate_metrics\<close> returns are sorted non-increasing in \<open>importance_score\<close>. Nothing
  is said of the order of rows with equal scores.
\<close>

theorem calculate_metrics_sorted:
  assumes "sorts_descending L" "round_monotone L" "calculate_metrics L df = Inr ms"
  shows "sorted_wrt (\<lambda>a b. num_le L (importance_score (snd b)) (importance_score (snd a))) ms"
proof -
  from calculate_metrics_shape[OF assms(3)] obtain pid pname xs where
    ms: "ms = map (\<lambda>m. (fst m, round_metric L pid pname (snd m))) (sort_values L xs)"
    by blast
  have "sorted_wrt (\<lambda>a b. num_le L (importance_score (snd b)) (importance_score (snd a)))
      (sort_values L xs)"
    using assms(1) by (rule sort_values_sorted)
  then have "sorted_wrt (\<lambda>a b. num_le L (round2 L (importance_score (snd b)))
                                       (round2 L (importance_score (snd a)))) (sort_values L xs)"
    using assms(2) by (auto simp: round_monotone_def elim!: sorted_wrt_mono_rel[rotated])
  then show ?thesis
    by (simp add: ms sorted_wrt_map round_metric_def)
qed

theorem calculate_metrics_sorted_witness:
  "map_sum id (map (\<lambda>m. importance_score (snd m))) (calculate_metrics exact example_frame) =
     Inr [Finite (755 / 2), Finite 114, Finite 39] \<and>
   map_sum id (sorted_wrt (\<lambda>a b. num_le exact (importance_score (snd b)) (importance_score (snd a))))
     (calculate_metrics exact example_frame) = Inr True"
proof -
  have a: "map_sum id (map (\<lambda>m. importance_score (snd m))) (calculate_metrics exact example_frame) =
     Inr [Finite (755 / 2), Finite 114, Finite 39]"
    by code_simp
  then obtain ms where ms: "calculate_metrics exact example_frame = Inr ms"
    by (cases "calculate_metrics exact example_frame") auto
  from calculate_metrics_sorted[OF sorts_descending_exact round_monotone_exact ms] a ms
  show ?thesis by simp
qed

text \<open>
  Claim C2 as stated fails on a tie: both products score 5.5, the table meets the group
  (P2, Beta) first and (P1, Alpha) second, and the rows returned are P1 then P2.
\<close>

theorem tie_order_counterexample:
  "validate_required_fields exact ProductRecommenderAI tie_frame = (True, ''Success'') \<and>
   validate_data_types exact tie_frame = ((True, ''Success''), tie_frame) \<and>
   calculate_metrics exact tie_frame = Inr tie_metrics \<and>
   first_encounter exact tie_frame = [(Str ''P2'', Str ''Beta''), (Str ''P1'', Str ''Alpha'')]"
  by code_simp

text \<open>
  Claim C4, on a validated table in which two rows bear the same row label. The lambda of
  \<open>agg\<close> looks the quantities up by the labels of the rows of the group, and finds both
  rows for either group: \<open>total_spend\<close> is 30 for Alpha and 60 for Beta, where the sums
  over the rows of the groups of quantity times price are 10 and 40.
\<close>

theorem total_spend_with_repeated_row_label:
  "validate_data_format (csv_lib labelled_text labelled_frame) labelled_text =
     (True, ''Success'', Some labelled_frame) \<and>
   validate_required_fields (csv_lib labelled_text labelled_frame) ProductRecommenderAI
     labelled_frame = (True, ''Success'') \<and>
   validate_data_types (csv_lib labelled_text labelled_frame) labelled_frame =
     ((True, ''Success''), labelled_frame) \<and>
   map_sum id (map (\<lambda>m. (product_name (snd m), total_spend (snd m))))
     (calculate_metrics (csv_lib labelled_text labelled_frame) labelled_frame) =
     Inr [(Str ''Beta'', Finite 60), (Str ''Alpha'', Finite 30)] \<and>
   spend_of_rows (csv_lib labelled_text labelled_frame) labelled_frame (Str ''P2'', Str ''Beta'') =
     Finite 40 \<and>
   spend_of_rows (csv_lib labelled_text labelled_frame) labelled_frame (Str ''P1'', Str ''Alpha'') =
     Finite 10"
  by code_simp


subsection \<open>The success report\<close>













subsection \<open>The transactions listed for a product\<close>

text \<open>
  Claim C10, on a validated table in which the number 1.234 is the \<open>product_id\<close> of two
  products. \<open>round(2)\<close> turns the id in both rows of the metrics into 1.23, no row of
  the table bears 1.23, and the Individual Transactions listing of either product is
  empty although two rows bear its id.
\<close>

theorem rounded_product_id_lists_nothing:
  "validate_data_format (csv_lib float_id_text float_id_frame) float_id_text =
     (True, ''Success'', Some float_id_frame) \<and>
   validate_required_fields (csv_lib float_id_text float_id_frame) ProductRecommenderAI
     float_id_frame = (True, ''Success'') \<and>
   validate_data_types (csv_lib float_id_text float_id_frame) float_id_frame =
     ((True, ''Success''), float_id_frame) \<and>
   map_sum id length
     (product_transactions (csv_lib float_id_text float_id_frame) float_id_frame
        (Num (Finite (1234 / 1000)))) = Inr 2 \<and>
   map_sum id (map (\<lambda>m. (product_id (snd m), product_name (snd m),
       map_sum id listing (product_section (csv_lib float_id_text float_id_frame) float_id_frame m))))
     (calculate_metrics (csv_lib float_id_text float_id_frame) float_id_frame) =
     Inr [(Num (Finite (123 / 100)), Str ''Beta'', Inr []),
          (Num (Finite (123 / 100)), Str ''Alpha'', Inr [])]"
  by code_simp

end
